theory Spec2Isabelle
  imports Main "HOL-Library.Word"
begin

unbundle bit_operations_syntax

section \<open>Machine types\<close>

text \<open>
  The C fixed-width types of \<^verbatim>\<open>space_invaders_core.h\<close>. A C \<^verbatim>\<open>int\<close> is modelled by
  \<^typ>\<open>int\<close>; the places where C leaves an \<^verbatim>\<open>int\<close> operation undefined are written out
  as the value \<open>None\<close>.
\<close>

type_synonym u8 = "8 word"
type_synonym u16 = "16 word"
type_synonym u32 = "32 word"
type_synonym u64 = "64 word"

text \<open>
  A C \<^verbatim>\<open>float\<close> is kept as its IEEE-754 binary32 bit pattern. The only float operation
  of the core is the comparison \<^verbatim>\<open>multiplier == 0.0f\<close>, true for the two zeros
  (\<open>+0.0\<close> is \<open>0x00000000\<close>, \<open>-0.0\<close> is \<open>0x80000000\<close>) and for nothing else.
\<close>

type_synonym float32 = u32

definition float_eq_zero :: "float32 \<Rightarrow> bool" where
  "float_eq_zero f = (f AND 0x7FFFFFFF = 0)"

section \<open>The emulator state (space\_invaders\_core.h)\<close>

record si_config_t =
  headless :: bool
  speed_multiplier :: float32
  uncapped :: bool
  dip_switches :: "u8 \<times> u8 \<times> u8"

record si_state_t =
  screen_buf :: "u8 list"
  shift_reg :: u16
  shift_offset :: int
  input_state :: u8
  frame_count :: u32
  cycle_count :: u64
  initialized :: bool
  config :: si_config_t

definition SI_RAM_START :: nat where "SI_RAM_START = 0x2000"
definition SI_RAM_SIZE :: nat where "SI_RAM_SIZE = 0x2000"

section \<open>Port I/O handlers\<close>

text \<open>
  \<^verbatim>\<open>si_port_in\<close>. Port 3 computes \<^verbatim>\<open>shift_reg >> (8 - shift_offset)\<close> on the register
  promoted to \<^verbatim>\<open>int\<close> and returns it truncated to \<^verbatim>\<open>uint8_t\<close>. A shift count that is
  negative or not below the width of \<^verbatim>\<open>int\<close> is undefined in C: the model returns \<open>None\<close>
  there. The promoted register is non-negative and below \<open>2 ^ 16\<close>, so the shift on
  \<^typ>\<open>u16\<close> gives the same low byte.
\<close>

definition si_port_in :: "si_state_t \<Rightarrow> int \<Rightarrow> u8 option" where
  "si_port_in s port =
     (if port = 0 then Some (fst (dip_switches (config s)))
      else if port = 1 then Some (input_state s)
      else if port = 2 then Some (snd (snd (dip_switches (config s))))
      else if port = 3 then
        (if 0 \<le> 8 - shift_offset s \<and> 8 - shift_offset s < 32
         then Some (ucast (drop_bit (nat (8 - shift_offset s)) (shift_reg s)))
         else None)
      else Some 0x00)"

text \<open>
  \<^verbatim>\<open>si_port_out\<close>. Port 2 stores \<^verbatim>\<open>value & 7\<close>; port 4 stores
  \<^verbatim>\<open>(shift_reg >> 8) | ((uint16_t)value << 8)\<close>; ports 3, 5, 6 and the default do nothing.
\<close>

definition si_port_out :: "int \<Rightarrow> u8 \<Rightarrow> si_state_t \<Rightarrow> si_state_t" where
  "si_port_out port v s =
     (if port = 2 then s\<lparr>shift_offset := uint (v AND 7)\<rparr>
      else if port = 3 then s
      else if port = 4 then
        s\<lparr>shift_reg := drop_bit 8 (shift_reg s) OR push_bit 8 (ucast v)\<rparr>
      else if port = 5 then s
      else if port = 6 then s
      else s)"

section \<open>Input control\<close>

definition si_set_input :: "u8 \<Rightarrow> si_state_t \<Rightarrow> si_state_t" where
  "si_set_input buttons s = s\<lparr>input_state := (buttons AND 0x77) OR 0x08\<rparr>"

definition si_get_input :: "si_state_t \<Rightarrow> u8" where
  "si_get_input s = input_state s"

section \<open>Configuration\<close>

definition si_set_speed :: "float32 \<Rightarrow> si_state_t \<Rightarrow> si_state_t" where
  "si_set_speed multiplier s =
     (let s1 = s\<lparr>config := (config s)\<lparr>speed_multiplier := multiplier\<rparr>\<rparr>
      in if float_eq_zero multiplier
         then s1\<lparr>config := (config s1)\<lparr>uncapped := True\<rparr>\<rparr>
         else s1)"

definition si_set_uncapped :: "bool \<Rightarrow> si_state_t \<Rightarrow> si_state_t" where
  "si_set_uncapped u s = s\<lparr>config := (config s)\<lparr>uncapped := u\<rparr>\<rparr>"

definition si_set_dip_switches :: "u8 \<Rightarrow> u8 \<Rightarrow> u8 \<Rightarrow> si_state_t \<Rightarrow> si_state_t" where
  "si_set_dip_switches dip0 dip1 dip2 s =
     s\<lparr>config := (config s)\<lparr>dip_switches := (dip0, dip1, dip2)\<rparr>\<rparr>"

section \<open>The address space\<close>

text \<open>
  Modelled from the spec: \<^verbatim>\<open>8080Memory.h\<close> and its implementation (\<^verbatim>\<open>readByte\<close>,
  \<^verbatim>\<open>writeByte\<close>, \<^verbatim>\<open>registerBank\<close>) are not among the sources. The spec (4.1): the
  address space is a collection of non-overlapping banks, each with a base address, a
  length, a read-only flag and an owned byte buffer; a read resolves the bank covering
  the address and returns \<open>0x00\<close> when none does; a write to a read-only bank or to an
  unmapped address is silently discarded. A buffer is indexed by the offset into its bank.
\<close>

record bank =
  bank_base :: nat
  bank_len :: nat
  bank_ro :: bool
  bank_buf :: "nat \<Rightarrow> u8"

type_synonym address_space = "bank list"

definition covers :: "bank \<Rightarrow> nat \<Rightarrow> bool" where
  "covers b a = (bank_base b \<le> a \<and> a < bank_base b + bank_len b)"

fun readByte :: "address_space \<Rightarrow> nat \<Rightarrow> u8" where
  "readByte [] a = 0x00"
| "readByte (b # bs) a =
     (if covers b a then bank_buf b (a - bank_base b) else readByte bs a)"

fun writeByte :: "u8 \<Rightarrow> nat \<Rightarrow> address_space \<Rightarrow> address_space" where
  "writeByte v a [] = []"
| "writeByte v a (b # bs) =
     (if covers b a
      then (if bank_ro b then b # bs
            else b\<lparr>bank_buf := (bank_buf b)(a - bank_base b := v)\<rparr> # bs)
      else b # writeByte v a bs)"

text \<open>An address is writable when the bank that resolves it is not read-only.\<close>

fun writable :: "address_space \<Rightarrow> nat \<Rightarrow> bool" where
  "writable [] a = False"
| "writable (b # bs) a = (if covers b a then \<not> bank_ro b else writable bs a)"

text \<open>
  The two banks \<^verbatim>\<open>si_init_with_config\<close> registers: the read-only ROM bank at \<open>0x0000\<close>
  of \<open>4 * 0x0800\<close> bytes and the read-write RAM bank at \<^verbatim>\<open>SI_RAM_START\<close> of
  \<^verbatim>\<open>SI_RAM_SIZE\<close> bytes.
\<close>

definition si_banks :: "(nat \<Rightarrow> u8) \<Rightarrow> (nat \<Rightarrow> u8) \<Rightarrow> address_space" where
  "si_banks rom_buf ram_buf =
     [\<lparr>bank_base = 0x0000, bank_len = 4 * 0x0800, bank_ro = True, bank_buf = rom_buf\<rparr>,
      \<lparr>bank_base = SI_RAM_START, bank_len = SI_RAM_SIZE, bank_ro = False, bank_buf = ram_buf\<rparr>]"

section \<open>Game state queries and structured observations\<close>

text \<open>
  An output parameter \<^verbatim>\<open>uint8_t *x\<close> is modelled by the prior content of the location it
  points to, \<open>None\<close> for a null pointer; a getter returns its result together with the
  contents of the two locations after the call.
\<close>

definition si_get_lives :: "address_space \<Rightarrow> int" where
  "si_get_lives m =
     (let ships_remaining = readByte m 0x21FF;
          player_alive = readByte m 0x20E7;
          total_lives = uint ships_remaining + (if player_alive \<noteq> 0 then 1 else 0)
      in if total_lives > 6 then 0 else total_lives)"

definition si_get_player_shot ::
  "address_space \<Rightarrow> u8 option \<Rightarrow> u8 option \<Rightarrow> u8 \<times> u8 option \<times> u8 option" where
  "si_get_player_shot m x y =
     (let status = readByte m 0x2025
      in (status,
          map_option (\<lambda>_. readByte m 0x202A) x,
          map_option (\<lambda>_. readByte m 0x2029) y))"

definition si_get_rolling_shot ::
  "address_space \<Rightarrow> u8 option \<Rightarrow> u8 option \<Rightarrow> u8 \<times> u8 option \<times> u8 option" where
  "si_get_rolling_shot m x y =
     (let shot_y = readByte m 0x203D;
          shot_x = readByte m 0x203E
      in (if shot_y \<noteq> 0 then 1 else 0,
          map_option (\<lambda>_. shot_x) x,
          map_option (\<lambda>_. shot_y) y))"

definition si_get_plunger_shot ::
  "address_space \<Rightarrow> u8 option \<Rightarrow> u8 option \<Rightarrow> u8 \<times> u8 option \<times> u8 option" where
  "si_get_plunger_shot m x y =
     (let shot_y = readByte m 0x204D;
          shot_x = readByte m 0x204E
      in (if shot_y \<noteq> 0 then 1 else 0,
          map_option (\<lambda>_. shot_x) x,
          map_option (\<lambda>_. shot_y) y))"

definition si_get_squiggly_shot ::
  "address_space \<Rightarrow> u8 option \<Rightarrow> u8 option \<Rightarrow> u8 \<times> u8 option \<times> u8 option" where
  "si_get_squiggly_shot m x y =
     (let shot_y = readByte m 0x205D;
          shot_x = readByte m 0x205E
      in (if shot_y \<noteq> 0 then 1 else 0,
          map_option (\<lambda>_. shot_x) x,
          map_option (\<lambda>_. shot_y) y))"

definition si_get_ufo_active ::
  "address_space \<Rightarrow> u8 option \<Rightarrow> u8 option \<Rightarrow> bool \<times> u8 option \<times> u8 option" where
  "si_get_ufo_active m x y =
     (let active = (readByte m 0x2084 \<noteq> 0)
      in if active
         then (active,
               map_option (\<lambda>_. readByte m 0x207C) x,
               map_option (\<lambda>_. readByte m 0x207B) y)
         else (active, x, y))"

section \<open>The CPU state\<close>

text \<open>
  Modelled from the spec: \<^verbatim>\<open>8080Core.h\<close>, which declares the structure \<^verbatim>\<open>e8080\<close> and the
  functions \<^verbatim>\<open>reset8080\<close>, \<^verbatim>\<open>emulate8080\<close> and \<^verbatim>\<open>causeInt\<close>, is not among the sources.
  The spec (3, CpuState): the accumulator and six general-purpose eight-bit registers, a
  16-bit stack pointer, a 16-bit program counter, five status flags, an interrupt-enable
  flag and a halted flag. The core itself names the fields \<^verbatim>\<open>IE\<close>, \<^verbatim>\<open>halt\<close>, \<^verbatim>\<open>ram\<close>,
  \<^verbatim>\<open>portIn\<close> and \<^verbatim>\<open>portOut\<close>; the last three are pointers, kept as numbers (\<open>0\<close> for the
  null pointer). The banks that \<^verbatim>\<open>readByte\<close> and \<^verbatim>\<open>writeByte\<close> resolve, reached in C
  through \<^verbatim>\<open>e8080.ram\<close>, are the address space of the emulator record below.
\<close>

record e8080_t =
  reg_a :: u8
  reg_b :: u8
  reg_c :: u8
  reg_d :: u8
  reg_e :: u8
  reg_h :: u8
  reg_l :: u8
  sp :: u16
  pc :: u16
  flag_s :: bool
  flag_z :: bool
  flag_p :: bool
  flag_c :: bool
  flag_ac :: bool
  IE :: bool
  halt :: bool
  ram :: nat
  portIn :: nat
  portOut :: nat

text \<open>
  Modelled from the spec: \<^verbatim>\<open>reset8080\<close> (4.2: registers cleared, program counter set to
  the caller-supplied reset vector, interrupt-enable cleared, halted false). The comment
  in \<^verbatim>\<open>si_reset\<close> adds that it clears the entire structure, the pointers included.
\<close>

definition reset8080 :: "u16 \<Rightarrow> e8080_t" where
  "reset8080 vector =
     \<lparr>reg_a = 0, reg_b = 0, reg_c = 0, reg_d = 0, reg_e = 0, reg_h = 0, reg_l = 0,
      sp = 0, pc = vector,
      flag_s = False, flag_z = False, flag_p = False, flag_c = False, flag_ac = False,
      IE = False, halt = False, ram = 0, portIn = 0, portOut = 0\<rparr>"

text \<open>The three globals the core works on: the CPU, the emulator state, the banks.\<close>

record emulator =
  e8080 :: e8080_t
  si_state :: si_state_t
  memory :: address_space

section \<open>Reset\<close>

text \<open>
  The loop of \<^verbatim>\<open>si_reset\<close>:
  \<^verbatim>\<open>for (addr = SI_RAM_START; addr < SI_RAM_START + SI_RAM_SIZE; addr++) writeByte(0x00, addr);\<close>
\<close>

function clear_ram :: "nat \<Rightarrow> address_space \<Rightarrow> address_space" where
  "clear_ram addr m =
     (if addr < SI_RAM_START + SI_RAM_SIZE
      then clear_ram (addr + 1) (writeByte 0x00 addr m)
      else m)"
  by pat_completeness auto
termination
  by (relation "measure (\<lambda>(addr, m). SI_RAM_START + SI_RAM_SIZE - addr)") auto

declare clear_ram.simps [simp del]

definition si_reset :: "emulator \<Rightarrow> emulator" where
  "si_reset em =
     (let saved_ram = ram (e8080 em);
          saved_portIn = portIn (e8080 em);
          saved_portOut = portOut (e8080 em);
          cpu1 = reset8080 0x0001;
          cpu2 = cpu1\<lparr>ram := saved_ram, portIn := saved_portIn, portOut := saved_portOut\<rparr>;
          st = (si_state em)\<lparr>shift_reg := 0x0000, shift_offset := 0, input_state := 0x08,
                              frame_count := 0, cycle_count := 0\<rparr>;
          mem1 = clear_ram SI_RAM_START (memory em);
          cpu3 = cpu2\<lparr>IE := True\<rparr>
      in \<lparr>e8080 = cpu3, si_state = st, memory = mem1\<rparr>)"

section \<open>Execution\<close>

text \<open>
  \<^verbatim>\<open>si_step_frame\<close>. The CPU engine is absent, so \<^verbatim>\<open>emulate8080\<close> (which returns the
  cycles it consumed) and \<^verbatim>\<open>causeInt\<close> are parameters acting on the whole emulator. The
  sum \<^verbatim>\<open>cycles1 + cycles2\<close> is a C \<^verbatim>\<open>int\<close> addition, undefined when it leaves the range of
  \<^verbatim>\<open>int\<close> (\<open>None\<close>); added to the \<^verbatim>\<open>uint64_t\<close> counter it is converted modulo \<open>2 ^ 64\<close>.
\<close>

definition c_int_range :: "int \<Rightarrow> bool" where
  "c_int_range i = (- (2 ^ 31) \<le> i \<and> i < 2 ^ 31)"

definition si_step_frame ::
  "(int \<Rightarrow> emulator \<Rightarrow> int \<times> emulator) \<Rightarrow> (int \<Rightarrow> emulator \<Rightarrow> emulator) \<Rightarrow>
   emulator \<Rightarrow> (int \<times> emulator) option" where
  "si_step_frame emulate8080 causeInt em =
     (let half_frame_cycles = 17066;
          (cycles1, em1) = emulate8080 half_frame_cycles em;
          em2 = causeInt 8 em1;
          (cycles2, em3) = emulate8080 half_frame_cycles em2;
          em4 = causeInt 16 em3;
          em5 = em4\<lparr>si_state := (si_state em4)\<lparr>frame_count := frame_count (si_state em4) + 1\<rparr>\<rparr>
      in if c_int_range (cycles1 + cycles2)
         then Some (cycles1 + cycles2,
                    em5\<lparr>si_state := (si_state em5)
                       \<lparr>cycle_count := cycle_count (si_state em5) + word_of_int (cycles1 + cycles2)\<rparr>\<rparr>)
         else None)"

text \<open>
  The engine reaches the emulator state only through the port handlers, which write the
  shift register and its offset: a function that leaves the two counters alone.
\<close>

definition keeps_counters :: "(emulator \<Rightarrow> emulator) \<Rightarrow> bool" where
  "keeps_counters f =
     (\<forall>em. frame_count (si_state (f em)) = frame_count (si_state em) \<and>
           cycle_count (si_state (f em)) = cycle_count (si_state em))"

section \<open>State persistence\<close>

text \<open>
  A file is the list of its bytes, \<open>None\<close> when \<^verbatim>\<open>fopen\<close> fails. \<^verbatim>\<open>fwrite(&obj, sizeof(obj), 1, fp)\<close>
  appends the object representation of a structure and \<^verbatim>\<open>fread(&obj, sizeof(obj), 1, fp)\<close>
  copies bytes of the file over it. How a structure is laid out in bytes is fixed by the
  compiler, not by the sources, so the representation is a parameter: the size of each
  of the two structures, the bytes of a value, and the value a sequence of bytes stands
  for.
\<close>

record abi =
  sizeof_e8080 :: nat
  e8080_bytes :: "e8080_t \<Rightarrow> u8 list"
  e8080_of_bytes :: "u8 list \<Rightarrow> e8080_t"
  sizeof_si_state :: nat
  si_state_bytes :: "si_state_t \<Rightarrow> u8 list"
  si_state_of_bytes :: "u8 list \<Rightarrow> si_state_t"

text \<open>
  Reading one structure of \<open>sz\<close> bytes into the live object \<open>obj\<close>: \<^verbatim>\<open>fread\<close> returns 1
  exactly when all \<open>sz\<close> bytes were there. When fewer were, C leaves the value of the
  partly read object indeterminate; the model takes what the C libraries do, which is
  to have copied the bytes that were there over the front of the object (none at the
  end of the file, where the object is untouched).
\<close>

definition fread_struct ::
  "nat \<Rightarrow> ('a \<Rightarrow> u8 list) \<Rightarrow> (u8 list \<Rightarrow> 'a) \<Rightarrow> 'a \<Rightarrow> u8 list \<Rightarrow> bool \<times> 'a \<times> u8 list" where
  "fread_struct sz to_bytes of_bytes obj fp =
     (let got = take sz fp
      in if length got = sz then (True, of_bytes got, drop sz fp)
         else (False,
               if got = [] then obj else of_bytes (got @ drop (length got) (to_bytes obj)),
               []))"

text \<open>The magic tag \<^verbatim>\<open>"SI80"\<close> and the \<^verbatim>\<open>uint32_t\<close> version, little-endian (spec 4.6).\<close>

definition magic :: "u8 list" where
  "magic = [0x53, 0x49, 0x38, 0x30]"

definition u32_bytes :: "u32 \<Rightarrow> u8 list" where
  "u32_bytes w = [ucast w, ucast (drop_bit 8 w), ucast (drop_bit 16 w), ucast (drop_bit 24 w)]"

definition u32_of_bytes :: "u8 list \<Rightarrow> u32" where
  "u32_of_bytes bs =
     ucast (bs ! 0) OR push_bit 8 (ucast (bs ! 1)) OR push_bit 16 (ucast (bs ! 2))
       OR push_bit 24 (ucast (bs ! 3))"

text \<open>
  The loop of \<^verbatim>\<open>si_save_state\<close>:
  \<^verbatim>\<open>for (addr = SI_RAM_START; addr < SI_RAM_START + SI_RAM_SIZE; addr++) { byte = readByte(addr); fwrite(&byte, 1, 1, fp); }\<close>
\<close>

function save_ram :: "nat \<Rightarrow> address_space \<Rightarrow> u8 list" where
  "save_ram addr m =
     (if addr < SI_RAM_START + SI_RAM_SIZE
      then readByte m addr # save_ram (addr + 1) m
      else [])"
  by pat_completeness auto
termination
  by (relation "measure (\<lambda>(addr, m). SI_RAM_START + SI_RAM_SIZE - addr)") auto

declare save_ram.simps [simp del]

text \<open>
  \<^verbatim>\<open>si_save_state\<close> checks \<^verbatim>\<open>fopen\<close> only; the results of \<^verbatim>\<open>fwrite\<close> are not looked at, and
  the model takes every write to succeed. It returns the status and the file written.
\<close>

definition si_save_state :: "abi \<Rightarrow> bool \<Rightarrow> emulator \<Rightarrow> int \<times> u8 list option" where
  "si_save_state abi fopen_ok em =
     (if \<not> fopen_ok then (- 1, None)
      else (0, Some (magic @ u32_bytes 1 @ e8080_bytes abi (e8080 em)
                       @ si_state_bytes abi (si_state em)
                       @ save_ram SI_RAM_START (memory em))))"

text \<open>
  The loop of \<^verbatim>\<open>si_load_state\<close>:
  \<^verbatim>\<open>for (addr = ...) { if (fread(&byte, 1, 1, fp) != 1) return -1; writeByte(byte, addr); }\<close>
\<close>

function load_ram :: "nat \<Rightarrow> u8 list \<Rightarrow> address_space \<Rightarrow> bool \<times> address_space" where
  "load_ram addr fp m =
     (if addr < SI_RAM_START + SI_RAM_SIZE
      then (case fp of
              [] \<Rightarrow> (False, m)
            | byte # rest \<Rightarrow> load_ram (addr + 1) rest (writeByte byte addr m))
      else (True, m))"
  by pat_completeness auto
termination
  by (relation "measure (\<lambda>(addr, fp, m). SI_RAM_START + SI_RAM_SIZE - addr)") auto

declare load_ram.simps [simp del]

text \<open>
  Every failure of \<^verbatim>\<open>si_load_state\<close> returns \<open>-1\<close> after a message of its own; the model
  keeps which one it was.
\<close>

datatype load_error =
  OpenFailed | BadMagic | BadVersion | ShortCpuState | ShortEmuState | ShortRam

definition status_code :: "load_error option \<Rightarrow> int" where
  "status_code r = (case r of None \<Rightarrow> 0 | Some e \<Rightarrow> - 1)"

definition si_load_state :: "abi \<Rightarrow> u8 list option \<Rightarrow> emulator \<Rightarrow> load_error option \<times> emulator" where
  "si_load_state abi file em =
     (case file of
        None \<Rightarrow> (Some OpenFailed, em)
      | Some fp \<Rightarrow>
          if length (take 4 fp) \<noteq> 4 \<or> take 4 fp \<noteq> magic then (Some BadMagic, em)
          else
            let fp1 = drop 4 fp
            in if length (take 4 fp1) \<noteq> 4 \<or> u32_of_bytes (take 4 fp1) \<noteq> 1
               then (Some BadVersion, em)
               else
                 let (ok_cpu, cpu1, fp2) =
                       fread_struct (sizeof_e8080 abi) (e8080_bytes abi) (e8080_of_bytes abi)
                         (e8080 em) (drop 4 fp1);
                     em1 = em\<lparr>e8080 := cpu1\<rparr>
                 in if \<not> ok_cpu then (Some ShortCpuState, em1)
                    else
                      let (ok_si, si1, fp3) =
                            fread_struct (sizeof_si_state abi) (si_state_bytes abi)
                              (si_state_of_bytes abi) (si_state em1) fp2;
                          em2 = em1\<lparr>si_state := si1\<rparr>
                      in if \<not> ok_si then (Some ShortEmuState, em2)
                         else
                           let (ok_ram, m1) = load_ram SI_RAM_START fp3 (memory em2);
                               em3 = em2\<lparr>memory := m1\<rparr>
                           in if \<not> ok_ram then (Some ShortRam, em3) else (None, em3))"

section \<open>The legacy front-end (SpaceInvaders.c)\<close>

text \<open>
  The port handlers of the interactive front-end, on globals of their own. Port 3
  computes \<^verbatim>\<open>(shiftReg << shiftOff) >> 8\<close> on \<^verbatim>\<open>int\<close>: a left shift by the width of \<^verbatim>\<open>int\<close>
  or more, or one whose result \<^verbatim>\<open>int\<close> cannot hold, is undefined, and any port other
  than 1, 2 and 3 enters \<^verbatim>\<open>while (1);\<close> and never returns. Both are the value \<open>None\<close>.
\<close>

record legacy_ports =
  dip1 :: u8
  dip2 :: u8
  shiftReg :: u16
  shiftOff :: u16

definition spaceInvaders_portIn :: "legacy_ports \<Rightarrow> int \<Rightarrow> u8 option" where
  "spaceInvaders_portIn s port =
     (if port = 1 then Some (dip1 s)
      else if port = 2 then Some (dip2 s)
      else if port = 3 then
        (if unat (shiftOff s) < 32 \<and> push_bit (unat (shiftOff s)) (uint (shiftReg s)) < 2 ^ 31
         then Some (word_of_int (drop_bit 8 (push_bit (unat (shiftOff s)) (uint (shiftReg s)))))
         else None)
      else None)"

definition spaceInvaders_portOut :: "int \<Rightarrow> u8 \<Rightarrow> legacy_ports \<Rightarrow> legacy_ports" where
  "spaceInvaders_portOut port v s =
     (if port = 2 then s\<lparr>shiftOff := ucast v\<rparr>
      else if port = 4 then s\<lparr>shiftReg := drop_bit 8 (shiftReg s) OR ucast v\<rparr>
      else s)"

text \<open>
  The formula the round-trip property of the spec (8) gives for the port-3 read,
  \<open>(v << k) >> 8\<close> truncated to 8 bits, computed on \<^verbatim>\<open>int\<close>.
\<close>

definition spec_shift_read :: "u8 \<Rightarrow> nat \<Rightarrow> u8" where
  "spec_shift_read v k = word_of_int (drop_bit 8 (push_bit k (uint v)))"

section \<open>Instances\<close>

text \<open>
  Concrete values at which the theorems below are instantiated: one object representation
  (every field in declaration order, little-endian, without padding), an engine, and
  two states of the machine.
\<close>

definition u16_bytes :: "u16 \<Rightarrow> u8 list" where
  "u16_bytes w = [ucast w, ucast (drop_bit 8 w)]"

definition u64_bytes :: "u64 \<Rightarrow> u8 list" where
  "u64_bytes w =
     [ucast w, ucast (drop_bit 8 w), ucast (drop_bit 16 w), ucast (drop_bit 24 w),
      ucast (drop_bit 32 w), ucast (drop_bit 40 w), ucast (drop_bit 48 w), ucast (drop_bit 56 w)]"

primrec le_word :: "u8 list \<Rightarrow> 'a::len word" where
  "le_word [] = 0"
| "le_word (b # bs) = ucast b OR push_bit 8 (le_word bs)"

definition byte_of_bool :: "bool \<Rightarrow> u8" where
  "byte_of_bool b = (if b then 1 else 0)"

definition example_e8080_bytes :: "e8080_t \<Rightarrow> u8 list" where
  "example_e8080_bytes c =
     [reg_a c, reg_b c, reg_c c, reg_d c, reg_e c, reg_h c, reg_l c]
     @ u16_bytes (sp c) @ u16_bytes (pc c)
     @ map byte_of_bool [flag_s c, flag_z c, flag_p c, flag_c c, flag_ac c, IE c, halt c]
     @ u64_bytes (word_of_nat (ram c)) @ u64_bytes (word_of_nat (portIn c))
     @ u64_bytes (word_of_nat (portOut c))"

definition example_e8080_of_bytes :: "u8 list \<Rightarrow> e8080_t" where
  "example_e8080_of_bytes bs =
     \<lparr>reg_a = bs ! 0, reg_b = bs ! 1, reg_c = bs ! 2, reg_d = bs ! 3, reg_e = bs ! 4,
      reg_h = bs ! 5, reg_l = bs ! 6,
      sp = le_word (take 2 (drop 7 bs)),
      pc = le_word (take 2 (drop 9 bs)),
      flag_s = (bs ! 11 \<noteq> 0), flag_z = (bs ! 12 \<noteq> 0), flag_p = (bs ! 13 \<noteq> 0),
      flag_c = (bs ! 14 \<noteq> 0), flag_ac = (bs ! 15 \<noteq> 0),
      IE = (bs ! 16 \<noteq> 0), halt = (bs ! 17 \<noteq> 0),
      ram = unat (le_word (take 8 (drop 18 bs)) :: u64),
      portIn = unat (le_word (take 8 (drop 26 bs)) :: u64),
      portOut = unat (le_word (take 8 (drop 34 bs)) :: u64)\<rparr>"

text \<open>\<^verbatim>\<open>SI_SCREEN_WIDTH * SI_SCREEN_HEIGHT * 4\<close>, the size of \<^verbatim>\<open>screen_buf\<close>.\<close>

definition SCREEN_BYTES :: nat where
  "SCREEN_BYTES = 256 * 224 * 4"

definition example_si_state_bytes :: "si_state_t \<Rightarrow> u8 list" where
  "example_si_state_bytes s =
     take SCREEN_BYTES (screen_buf s)
     @ u16_bytes (shift_reg s)
     @ u32_bytes (word_of_int (shift_offset s))
     @ [input_state s]
     @ u32_bytes (frame_count s)
     @ u64_bytes (cycle_count s)
     @ [byte_of_bool (initialized s), byte_of_bool (headless (config s))]
     @ u32_bytes (speed_multiplier (config s))
     @ [byte_of_bool (uncapped (config s)),
        fst (dip_switches (config s)),
        fst (snd (dip_switches (config s))),
        snd (snd (dip_switches (config s)))]"

definition example_si_state_of_bytes :: "u8 list \<Rightarrow> si_state_t" where
  "example_si_state_of_bytes bs =
     (let r = drop SCREEN_BYTES bs
      in \<lparr>screen_buf = take SCREEN_BYTES bs,
          shift_reg = le_word (take 2 r),
          shift_offset = sint (le_word (take 4 (drop 2 r)) :: u32),
          input_state = r ! 6,
          frame_count = le_word (take 4 (drop 7 r)),
          cycle_count = le_word (take 8 (drop 11 r)),
          initialized = (r ! 19 \<noteq> 0),
          config = \<lparr>headless = (r ! 20 \<noteq> 0),
                    speed_multiplier = le_word (take 4 (drop 21 r)),
                    uncapped = (r ! 25 \<noteq> 0),
                    dip_switches = (r ! 26, r ! 27, r ! 28)\<rparr>\<rparr>)"

definition example_abi :: abi where
  "example_abi =
     \<lparr>sizeof_e8080 = 42, e8080_bytes = example_e8080_bytes,
      e8080_of_bytes = example_e8080_of_bytes,
      sizeof_si_state = SCREEN_BYTES + 29, si_state_bytes = example_si_state_bytes,
      si_state_of_bytes = example_si_state_of_bytes\<rparr>"

text \<open>
  The machine as \<^verbatim>\<open>si_init\<close> leaves it (default configuration, speed \<open>1.0f\<close>), over ROM
  images that are zero but for the patched first byte \<open>0xc3\<close>.
\<close>

definition example_emulator :: emulator where
  "example_emulator =
     \<lparr>e8080 = (reset8080 0x0001)\<lparr>ram := 0x1000, portIn := 0x2000, portOut := 0x3000\<rparr>,
      si_state =
        \<lparr>screen_buf = replicate SCREEN_BYTES 0, shift_reg = 0x0000, shift_offset = 0,
         input_state = 0x08, frame_count = 0, cycle_count = 0, initialized = True,
         config = \<lparr>headless = False, speed_multiplier = 0x3F800000, uncapped = False,
                   dip_switches = (0x0E, 0x08, 0x00)\<rparr>\<rparr>,
      memory = si_banks ((\<lambda>_. 0x00)(0 := 0xC3)) (\<lambda>_. 0x00)\<rparr>"

text \<open>
  The same machine later in a game: five frames on, with two ships in reserve and the
  player alive, score bytes \<open>0x23\<close> and \<open>0x01\<close>, a player shot at height 5 whose status
  byte is 0, a rolling shot and the saucer on screen.
\<close>

definition example_ram :: "nat \<Rightarrow> u8" where
  "example_ram =
     (\<lambda>_. 0x00)(0x1FF := 0x02, 0xE7 := 0x01, 0xF8 := 0x23, 0xF9 := 0x01,
                 0x29 := 0x05, 0x2A := 0x80, 0x3D := 0x40, 0x3E := 0x30,
                 0x84 := 0x01, 0x7C := 0x60, 0x7B := 0x70)"

definition example_later :: emulator where
  "example_later =
     \<lparr>e8080 = (e8080 example_emulator)\<lparr>reg_a := 0x07, sp := 0x2400, pc := 0x0100, IE := True\<rparr>,
      si_state = (si_state example_emulator)
        \<lparr>shift_reg := 0x1234, shift_offset := 3, frame_count := 5, cycle_count := 170680\<rparr>,
      memory = si_banks ((\<lambda>_. 0x00)(0 := 0xC3)) example_ram\<rparr>"

text \<open>
  Modelled from the spec: \<^verbatim>\<open>causeInt\<close> (4.2, interrupt): with interrupt-enable set it
  pushes the program counter, clears interrupt-enable, sets the program counter to the
  vector and clears halted; with interrupt-enable clear the interrupt is dropped.
\<close>

definition causeInt_spec :: "int \<Rightarrow> emulator \<Rightarrow> emulator" where
  "causeInt_spec vector em =
     (let c = e8080 em
      in if IE c
         then em\<lparr>e8080 := c\<lparr>sp := sp c - 2, pc := word_of_int vector, IE := False, halt := False\<rparr>,
                 memory := writeByte (ucast (pc c)) (unat (sp c - 2))
                             (writeByte (ucast (drop_bit 8 (pc c))) (unat (sp c - 1)) (memory em))\<rparr>
         else em)"

text \<open>
  An engine for the instances: halted, it idles through the whole budget (spec 4.2);
  running, it executes the four-cycle one-byte instruction \<open>0x00\<close> until the budget is
  reached, as an engine does over memory that reads \<open>0x00\<close>.
\<close>

definition example_emulate8080 :: "int \<Rightarrow> emulator \<Rightarrow> int \<times> emulator" where
  "example_emulate8080 budget em =
     (if halt (e8080 em) then (budget, em)
      else (let n = (budget + 3) div 4
            in (4 * n, em\<lparr>e8080 := (e8080 em)\<lparr>pc := pc (e8080 em) + word_of_int n\<rparr>\<rparr>)))"

definition example_running :: emulator where
  "example_running = example_emulator\<lparr>e8080 := (e8080 example_emulator)\<lparr>IE := True\<rparr>\<rparr>"

text \<open>
  A save file cut off right after the CPU section: the magic tag, version 1, and the 42
  bytes of a CPU state whose program counter is \<open>0x1234\<close>.
\<close>

definition truncated_save_file :: "u8 list" where
  "truncated_save_file =
     [0x53, 0x49, 0x38, 0x30, 0x01, 0x00, 0x00, 0x00,
      0x00, 0x00, 0x00, 0x00, 0x00, 0x00, 0x00,
      0x00, 0x00, 0x34, 0x12,
      0x00, 0x00, 0x00, 0x00, 0x00, 0x00, 0x00,
      0x00, 0x10, 0x00, 0x00, 0x00, 0x00, 0x00, 0x00,
      0x00, 0x20, 0x00, 0x00, 0x00, 0x00, 0x00, 0x00,
      0x00, 0x30, 0x00, 0x00, 0x00, 0x00, 0x00, 0x00]"

section \<open>The shift register round trip\<close>

lemma offset_mask: "k \<le> 7 \<Longrightarrow> k AND 7 = (k :: u8)"
proof -
  assume k: "k \<le> 7"
  have m: "(7 :: u8) = mask 3" by (simp add: mask_eq_exp_minus_1)
  from k have "uint k < 2 ^ 3" by (simp add: word_le_def)
  then show ?thesis
    unfolding m by (simp only: mask_eq_iff)
qed

lemma shift_out_low:
  "k \<le> 7 \<Longrightarrow>
   (ucast (drop_bit (8 - k) (push_bit 8 (ucast (v :: u8)) :: u16)) :: u8) = push_bit k v"
  by (rule bit_word_eqI) (auto simp: bit_ucast_iff bit_drop_bit_eq bit_push_bit_iff)

text \<open>
  Claim C1, as stated, at offset 0 and byte \<open>0xAA\<close>: the register's high byte is 0
  before, the formula of the claim gives \<open>0x00\<close>, and the port-3 read returns \<open>0xAA\<close>.
\<close>

theorem C1_shift_roundtrip_counterexample:
  "drop_bit 8 (shift_reg (si_state example_emulator)) = 0 \<and>
   si_port_in (si_port_out 4 0xAA (si_port_out 2 0 (si_state example_emulator))) 3 = Some 0xAA \<and>
   spec_shift_read 0xAA 0 = 0x00"
  by (simp add: si_port_in_def si_port_out_def example_emulator_def spec_shift_read_def)

text \<open>
  Claim C1, amended: starting from a shift register whose high byte is 0, writing an
  offset \<open>k\<close> (0 to 7) to port 2, then a byte \<open>v\<close> to port 4, then reading port 3 returns
  \<open>v << k\<close> truncated to 8 bits.
\<close>

theorem C1_shift_roundtrip:
  assumes high: "drop_bit 8 (shift_reg s) = 0" and k: "k \<le> 7"
  shows "si_port_in (si_port_out 4 v (si_port_out 2 k s)) 3 = Some (push_bit (unat k) v)"
proof -
  from k have u: "unat k \<le> 7" by (simp add: word_le_nat_alt)
  have off: "shift_offset (si_port_out 4 v (si_port_out 2 k s)) = uint k"
    by (simp add: si_port_out_def offset_mask [OF k])
  have reg: "shift_reg (si_port_out 4 v (si_port_out 2 k s)) = push_bit 8 (ucast v)"
    by (simp add: si_port_out_def high)
  from k have ui: "uint k \<le> 7" by (simp add: word_le_def)
  moreover have "0 \<le> uint k" by simp
  ultimately have r: "0 \<le> 8 - uint k \<and> 8 - uint k < 32" by linarith
  have "nat (8 - uint k) = nat 8 - nat (uint k)"
    by (rule nat_diff_distrib') simp_all
  then have n: "nat (8 - uint k) = 8 - unat k" by simp
  have "si_port_in (si_port_out 4 v (si_port_out 2 k s)) 3 =
      Some (ucast (drop_bit (8 - unat k) (push_bit 8 (ucast v) :: u16)))"
    unfolding si_port_in_def off reg using r n by simp
  then show ?thesis
    by (simp only: shift_out_low [OF u])
qed

text \<open>Offset 3 and byte \<open>0xAA\<close>: the read returns \<open>0x50\<close>.\<close>

theorem C1_shift_roundtrip_witness:
  "drop_bit 8 (shift_reg (si_state example_emulator)) = 0 \<and> (3 :: u8) \<le> 7 \<and>
   si_port_in (si_port_out 4 0xAA (si_port_out 2 3 (si_state example_emulator))) 3 = Some 0x50"
proof -
  have h: "drop_bit 8 (shift_reg (si_state example_emulator)) = 0"
    by (simp add: example_emulator_def)
  have k: "(3 :: u8) \<le> 7" by simp
  show ?thesis
    using C1_shift_roundtrip [OF h k, where v = "0xAA"] h by simp
qed

text \<open>
  The formula of the claim is what the legacy front-end computes, which puts the written
  byte into the low byte of its register.
\<close>

lemma legacy_shift_roundtrip:
  assumes high: "drop_bit 8 (shiftReg s) = 0" and k: "k \<le> 7"
  shows "spaceInvaders_portIn (spaceInvaders_portOut 4 v (spaceInvaders_portOut 2 k s)) 3 =
     Some (spec_shift_read v (unat k))"
proof -
  from k have u: "unat k \<le> 7" by (simp add: word_le_nat_alt)
  from u have "unat k < 2 ^ 16" by simp
  then have off: "unat (shiftOff (spaceInvaders_portOut 4 v (spaceInvaders_portOut 2 k s))) = unat k"
    by (simp add: spaceInvaders_portOut_def unsigned_ucast_eq take_bit_nat_eq_self)
  have "uint v < 2 ^ 16" "0 \<le> uint v" using uint_bounded [of v] by simp_all
  then have reg: "uint (shiftReg (spaceInvaders_portOut 4 v (spaceInvaders_portOut 2 k s))) = uint v"
    by (simp add: spaceInvaders_portOut_def high unsigned_ucast_eq take_bit_int_eq_self)
  have "uint v < 2 ^ 8" using uint_bounded [of v] by simp
  moreover have "(2 :: int) ^ unat k \<le> 2 ^ 7" using u by (intro power_increasing) simp_all
  ultimately have "uint v * 2 ^ unat k < 2 ^ 8 * 2 ^ 7"
    by (intro mult_less_le_imp_less) simp_all
  then have small: "push_bit (unat k) (uint v) < 2 ^ 31"
    by (simp add: push_bit_eq_mult)
  show ?thesis
    using u small by (simp add: spaceInvaders_portIn_def off reg spec_shift_read_def)
qed

section \<open>The input latch\<close>

lemma latch_bit:
  "bit ((b AND 0x77) OR 0x08 :: u8) n \<longleftrightarrow> n = 3 \<or> (n \<in> {0, 1, 2, 4, 5, 6} \<and> bit b n)"
proof (cases "n < 8")
  case True
  then consider "n = 0" | "n = 1" | "n = 2" | "n = 3" | "n = 4" | "n = 5" | "n = 6" | "n = 7"
    by linarith
  then show ?thesis
    by cases (simp_all add: bit_and_iff bit_or_iff)
next
  case False
  then have "\<not> bit ((b AND 0x77) OR 0x08 :: u8) n" "\<not> bit b n"
    by (auto dest: bit_imp_le_length)
  moreover from False have "n \<noteq> 3" by simp
  ultimately show ?thesis by simp
qed

text \<open>
  Claim C7: for every byte \<open>b\<close>, after \<^verbatim>\<open>si_set_input(b)\<close> the input latch is \<open>b\<close> masked to
  the button bits 0, 1, 2, 4, 5, 6 with bit 3 forced set, whatever else the state holds,
  and \<^verbatim>\<open>si_get_input\<close> returns the latch byte verbatim.
\<close>

theorem C7_set_input_latch:
  "(\<forall>n. bit (input_state (si_set_input b s)) n \<longleftrightarrow>
         n = 3 \<or> (n \<in> {0, 1, 2, 4, 5, 6} \<and> bit b n)) \<and>
   si_get_input (si_set_input b s) = input_state (si_set_input b s) \<and>
   si_get_input s = input_state s"
  by (simp add: si_set_input_def si_get_input_def latch_bit)

text \<open>All buttons and the undefined bits 3 and 7 raised: the latch reads \<open>0x7F\<close>.\<close>

theorem C7_set_input_latch_witness:
  "si_get_input (si_set_input 0xFF (si_state example_emulator)) = 0x7F \<and>
   si_get_input (si_set_input 0x00 (si_state example_emulator)) = 0x08 \<and>
   si_get_input (si_set_input 0x80 (si_state example_emulator)) = 0x08"
proof -
  have "si_get_input (si_set_input b s) = (b AND 0x77) OR 0x08" for b s
    using C7_set_input_latch [of b s] by (simp add: si_set_input_def)
  then show ?thesis by simp
qed

section \<open>The speed multiplier\<close>

text \<open>
  Claim C9: for every multiplier \<open>m\<close>, \<^verbatim>\<open>si_set_speed(m)\<close> stores \<open>m\<close> as the speed
  multiplier and, exactly when \<open>m\<close> compares equal to \<open>0.0\<close>, also sets the uncapped flag;
  for any other \<open>m\<close> the uncapped flag is what it was, and every other field of the
  state is unchanged in both cases.
\<close>

theorem C9_set_speed:
  "si_set_speed m s =
     s\<lparr>config := (config s)\<lparr>speed_multiplier := m,
                            uncapped := (float_eq_zero m \<or> uncapped (config s))\<rparr>\<rparr>"
  by (cases "float_eq_zero m") (simp_all add: si_set_speed_def Let_def)

text \<open>
  Speed \<open>2.0f\<close> (\<open>0x40000000\<close>) leaves the machine capped; \<open>0.0f\<close> and \<open>-0.0f\<close> uncap it.
\<close>

theorem C9_set_speed_witness:
  "config (si_set_speed 0x40000000 (si_state example_emulator)) =
     (config (si_state example_emulator))\<lparr>speed_multiplier := 0x40000000\<rparr> \<and>
   \<not> uncapped (config (si_set_speed 0x40000000 (si_state example_emulator))) \<and>
   uncapped (config (si_set_speed 0x00000000 (si_state example_emulator))) \<and>
   uncapped (config (si_set_speed 0x80000000 (si_state example_emulator))) \<and>
   speed_multiplier (config (si_set_speed 0x00000000 (si_state example_emulator))) = 0"
  using C9_set_speed [of "0x40000000" "si_state example_emulator"]
    C9_set_speed [of "0x00000000" "si_state example_emulator"]
    C9_set_speed [of "0x80000000" "si_state example_emulator"]
  by (simp add: float_eq_zero_def example_emulator_def)

section \<open>Lives, shots and the saucer\<close>

lemmas example_memory_defs =
  example_later_def example_emulator_def example_ram_def si_banks_def covers_def
  SI_RAM_START_def SI_RAM_SIZE_def

text \<open>
  Claim C8: with reserve-ships byte \<open>r\<close> (at \<open>0x21FF\<close>) and alive-flag byte \<open>a\<close>
  (at \<open>0x20E7\<close>), \<^verbatim>\<open>si_get_lives\<close> returns \<open>r\<close> plus 1 if \<open>a\<close> is non-zero when that sum
  is at most 6, and 0 when the sum exceeds 6.
\<close>

theorem C8_get_lives:
  assumes "readByte m 0x21FF = r" and "readByte m 0x20E7 = a"
  shows "si_get_lives m =
     (if uint r + (if a = 0 then 0 else 1) \<le> 6 then uint r + (if a = 0 then 0 else 1) else 0)"
  using assms by (auto simp: si_get_lives_def Let_def)

text \<open>
  Reserve 2 with alive 1 gives 3; reserve 6 with alive 0 gives 6; reserve 6 with
  alive 1 sums to 7 and gives 0.
\<close>

theorem C8_get_lives_witness:
  "si_get_lives (memory example_later) = 3 \<and>
   si_get_lives (si_banks (\<lambda>_. 0) ((\<lambda>_. 0)(0x1FF := 6))) = 6 \<and>
   si_get_lives (si_banks (\<lambda>_. 0) ((\<lambda>_. 0)(0x1FF := 6, 0xE7 := 1))) = 0"
proof -
  have "readByte (memory example_later) 0x21FF = 2" "readByte (memory example_later) 0x20E7 = 1"
    by (simp_all add: example_memory_defs)
  from C8_get_lives [OF this] have 1: "si_get_lives (memory example_later) = 3" by simp
  have "readByte (si_banks (\<lambda>_. 0) ((\<lambda>_. 0)(0x1FF := 6))) 0x21FF = 6"
    "readByte (si_banks (\<lambda>_. 0) ((\<lambda>_. 0)(0x1FF := 6))) 0x20E7 = 0"
    by (simp_all add: example_memory_defs)
  from C8_get_lives [OF this]
  have 2: "si_get_lives (si_banks (\<lambda>_. 0) ((\<lambda>_. 0)(0x1FF := 6))) = 6" by simp
  have "readByte (si_banks (\<lambda>_. 0) ((\<lambda>_. 0)(0x1FF := 6, 0xE7 := 1))) 0x21FF = 6"
    "readByte (si_banks (\<lambda>_. 0) ((\<lambda>_. 0)(0x1FF := 6, 0xE7 := 1))) 0x20E7 = 1"
    by (simp_all add: example_memory_defs)
  from C8_get_lives [OF this]
  have 3: "si_get_lives (si_banks (\<lambda>_. 0) ((\<lambda>_. 0)(0x1FF := 6, 0xE7 := 1))) = 0" by simp
  from 1 2 3 show ?thesis by simp
qed

text \<open>
  Claim C5, as stated, for the player shot: in the later machine the vertical-position
  byte of the player shot (at \<open>0x2029\<close>, the byte the getter reports as \<open>y\<close>) is 5, and
  the getter returns 0.
\<close>

theorem C5_shot_active_counterexample:
  "si_get_player_shot (memory example_later) (Some 0) (Some 0) = (0x00, Some 0x80, Some 0x05)"
  by (simp add: si_get_player_shot_def example_memory_defs)

text \<open>
  Claim C5, amended: for the rolling, the plunger and the squiggly shot the getter
  returns 1 when the vertical-position byte of that shot in RAM (the byte it reports as
  \<open>y\<close>) is non-zero and 0 when it is zero, for every RAM content; the getter of the
  player shot returns the player-shot status byte at \<open>0x2025\<close> verbatim.
\<close>

theorem C5_shot_active:
  "si_get_rolling_shot m x (Some y) =
     (if readByte m 0x203D \<noteq> 0 then 1 else 0, map_option (\<lambda>_. readByte m 0x203E) x,
      Some (readByte m 0x203D)) \<and>
   si_get_plunger_shot m x (Some y) =
     (if readByte m 0x204D \<noteq> 0 then 1 else 0, map_option (\<lambda>_. readByte m 0x204E) x,
      Some (readByte m 0x204D)) \<and>
   si_get_squiggly_shot m x (Some y) =
     (if readByte m 0x205D \<noteq> 0 then 1 else 0, map_option (\<lambda>_. readByte m 0x205E) x,
      Some (readByte m 0x205D)) \<and>
   fst (si_get_rolling_shot m x y') = (if readByte m 0x203D \<noteq> 0 then 1 else 0) \<and>
   fst (si_get_plunger_shot m x y') = (if readByte m 0x204D \<noteq> 0 then 1 else 0) \<and>
   fst (si_get_squiggly_shot m x y') = (if readByte m 0x205D \<noteq> 0 then 1 else 0) \<and>
   fst (si_get_player_shot m x y') = readByte m 0x2025"
  by (simp add: si_get_rolling_shot_def si_get_plunger_shot_def si_get_squiggly_shot_def
      si_get_player_shot_def)

text \<open>
  In the later machine the rolling shot is at height \<open>0x40\<close> and active, the plunger
  shot at height 0 and inactive.
\<close>

theorem C5_shot_active_witness:
  "si_get_rolling_shot (memory example_later) (Some 0) (Some 0) = (1, Some 0x30, Some 0x40) \<and>
   si_get_plunger_shot (memory example_later) (Some 0) (Some 0) = (0, Some 0, Some 0) \<and>
   fst (si_get_player_shot (memory example_later) (Some 0) None) = 0"
proof -
  have rb: "readByte (memory example_later) 0x203D = 0x40"
    "readByte (memory example_later) 0x203E = 0x30"
    "readByte (memory example_later) 0x204D = 0x00"
    "readByte (memory example_later) 0x204E = 0x00"
    "readByte (memory example_later) 0x2025 = 0x00"
    by (simp_all add: example_memory_defs)
  show ?thesis
    using C5_shot_active [of "memory example_later" "Some 0" 0 None]
    by (simp add: rb)
qed

text \<open>
  Claim C10: when the UFO-active byte (at \<open>0x2084\<close>) is zero, \<^verbatim>\<open>si_get_ufo_active\<close>
  returns false and the two output locations keep their prior contents; when it is
  non-zero, the call returns true and the locations that are not null receive the bytes
  at \<open>0x207C\<close> (x) and \<open>0x207B\<close> (y).
\<close>

theorem C10_get_ufo_active:
  "si_get_ufo_active m x y =
     (if readByte m 0x2084 = 0 then (False, x, y)
      else (True, map_option (\<lambda>_. readByte m 0x207C) x, map_option (\<lambda>_. readByte m 0x207B) y))"
  by (simp add: si_get_ufo_active_def)

text \<open>
  The saucer is on screen in the later machine and absent right after initialisation.
\<close>

theorem C10_get_ufo_active_witness:
  "si_get_ufo_active (memory example_later) (Some 0xAA) (Some 0xBB) = (True, Some 0x60, Some 0x70) \<and>
   si_get_ufo_active (memory example_later) None (Some 0xBB) = (True, None, Some 0x70) \<and>
   si_get_ufo_active (memory example_emulator) (Some 0xAA) (Some 0xBB) = (False, Some 0xAA, Some 0xBB)"
  using C10_get_ufo_active [of "memory example_later" "Some 0xAA" "Some 0xBB"]
    C10_get_ufo_active [of "memory example_later" None "Some 0xBB"]
    C10_get_ufo_active [of "memory example_emulator" "Some 0xAA" "Some 0xBB"]
  by (simp add: example_memory_defs)

section \<open>Reads and writes through the address space\<close>

lemma writable_writeByte: "writable (writeByte v a m) a' = writable m a'"
  by (induction m) (auto simp: covers_def)

lemma readByte_writeByte:
  "readByte (writeByte v a m) a' = (if a' = a \<and> writable m a then v else readByte m a')"
  by (induction m) (auto simp: covers_def)

lemma readByte_clear_ram:
  "readByte (clear_ram addr m) a =
     (if addr \<le> a \<and> a < SI_RAM_START + SI_RAM_SIZE \<and> writable m a then 0x00
      else readByte m a)"
proof (induction addr m rule: clear_ram.induct)
  case (1 addr m)
  show ?case
  proof (cases "addr < SI_RAM_START + SI_RAM_SIZE")
    case True
    have "a < addr \<or> a = addr \<or> Suc addr \<le> a" by arith
    with True "1" show ?thesis
      by (subst clear_ram.simps) (auto simp: readByte_writeByte writable_writeByte)
  next
    case False
    then show ?thesis by (subst clear_ram.simps) auto
  qed
qed

section \<open>The state after reset\<close>

text \<open>
  Claim C6, as stated, on the machine as initialisation leaves it: after \<^verbatim>\<open>si_reset\<close> the
  interrupt-enable flag is set, where \<^verbatim>\<open>reset8080\<close> alone leaves it cleared.
\<close>

theorem C6_reset_counterexample:
  "IE (e8080 (si_reset example_emulator)) \<and> \<not> IE (reset8080 0x0001)"
  by (simp add: si_reset_def reset8080_def)

text \<open>
  Claim C6, amended: immediately after \<^verbatim>\<open>si_reset\<close> the CPU registers, the stack pointer
  and the flags are cleared, the program counter is the reset vector \<open>0x0001\<close>, the
  interrupt-enable flag is set, the halted flag is false, every writable address of the
  RAM range reads \<open>0x00\<close>, and every other address (the ROM bank among them) reads what
  it read before.
\<close>

theorem C6_reset:
  "reg_a (e8080 (si_reset em)) = 0 \<and> reg_b (e8080 (si_reset em)) = 0 \<and>
   reg_c (e8080 (si_reset em)) = 0 \<and> reg_d (e8080 (si_reset em)) = 0 \<and>
   reg_e (e8080 (si_reset em)) = 0 \<and> reg_h (e8080 (si_reset em)) = 0 \<and>
   reg_l (e8080 (si_reset em)) = 0 \<and> sp (e8080 (si_reset em)) = 0 \<and>
   \<not> flag_s (e8080 (si_reset em)) \<and> \<not> flag_z (e8080 (si_reset em)) \<and>
   \<not> flag_p (e8080 (si_reset em)) \<and> \<not> flag_c (e8080 (si_reset em)) \<and>
   \<not> flag_ac (e8080 (si_reset em)) \<and>
   pc (e8080 (si_reset em)) = 0x0001 \<and>
   IE (e8080 (si_reset em)) \<and>
   \<not> halt (e8080 (si_reset em)) \<and>
   (\<forall>a. readByte (memory (si_reset em)) a =
      (if SI_RAM_START \<le> a \<and> a < SI_RAM_START + SI_RAM_SIZE \<and> writable (memory em) a
       then 0x00 else readByte (memory em) a))"
  by (simp add: si_reset_def reset8080_def readByte_clear_ram)

text \<open>
  Reset of the later machine: the score byte at \<open>0x20F8\<close> and the last RAM byte read 0,
  the patched first ROM byte still reads \<open>0xc3\<close>.
\<close>

theorem C6_reset_witness:
  "readByte (memory example_later) 0x20F8 = 0x23 \<and>
   readByte (memory (si_reset example_later)) 0x20F8 = 0x00 \<and>
   readByte (memory (si_reset example_later)) 0x3FFF = 0x00 \<and>
   readByte (memory (si_reset example_later)) 0x0000 = 0xC3 \<and>
   pc (e8080 (si_reset example_later)) = 0x0001 \<and>
   reg_a (e8080 (si_reset example_later)) = 0x00 \<and>
   IE (e8080 (si_reset example_later))"
proof -
  have w: "writable (memory example_later) 0x20F8" "writable (memory example_later) 0x3FFF"
    "\<not> writable (memory example_later) 0x0000"
    by (simp_all add: example_memory_defs)
  have r: "readByte (memory example_later) 0x20F8 = 0x23"
    "readByte (memory example_later) 0x0000 = 0xC3"
    by (simp_all add: example_memory_defs)
  show ?thesis
    using C6_reset [of example_later] w r
    by (simp add: SI_RAM_START_def SI_RAM_SIZE_def)
qed

section \<open>One frame of execution\<close>

text \<open>
  Claim C4: every call of \<^verbatim>\<open>si_step_frame\<close> runs burst 1, delivers interrupt \<open>8\<close>, runs
  burst 2 and delivers interrupt \<open>16\<close>, each once and in that order whatever the engine
  does; the frame counter is then one more than at entry, the cycle counter is more by
  the sum of the cycles the two bursts consumed, and that sum is returned. The engine and
  the interrupt delivery are any functions that leave the two counters alone; the sum is
  within the range of \<^verbatim>\<open>int\<close>.
\<close>

theorem C4_step_frame:
  assumes em_keeps: "\<forall>n. keeps_counters (\<lambda>e. snd (emulate8080 n e))"
    and ci_keeps: "\<forall>v. keeps_counters (causeInt v)"
    and b1: "emulate8080 17066 em = (cycles1, em1)"
    and b2: "emulate8080 17066 (causeInt 8 em1) = (cycles2, em3)"
    and rng: "c_int_range (cycles1 + cycles2)"
  shows "si_step_frame emulate8080 causeInt em =
     Some (cycles1 + cycles2,
           (causeInt 16 em3)\<lparr>si_state := (si_state (causeInt 16 em3))
              \<lparr>frame_count := frame_count (si_state em) + 1,
               cycle_count := cycle_count (si_state em) + word_of_int (cycles1 + cycles2)\<rparr>\<rparr>)"
proof -
  have e1: "frame_count (si_state em1) = frame_count (si_state em)"
           "cycle_count (si_state em1) = cycle_count (si_state em)"
    using em_keeps b1 unfolding keeps_counters_def by (metis snd_conv)+
  have e2: "frame_count (si_state (causeInt 8 em1)) = frame_count (si_state em1)"
           "cycle_count (si_state (causeInt 8 em1)) = cycle_count (si_state em1)"
    using ci_keeps unfolding keeps_counters_def by simp_all
  have e3: "frame_count (si_state em3) = frame_count (si_state (causeInt 8 em1))"
           "cycle_count (si_state em3) = cycle_count (si_state (causeInt 8 em1))"
    using em_keeps b2 unfolding keeps_counters_def by (metis snd_conv)+
  have e4: "frame_count (si_state (causeInt 16 em3)) = frame_count (si_state em3)"
           "cycle_count (si_state (causeInt 16 em3)) = cycle_count (si_state em3)"
    using ci_keeps unfolding keeps_counters_def by simp_all
  show ?thesis
    using rng by (simp add: si_step_frame_def Let_def b1 b2 e1 e2 e3 e4)
qed

lemma example_emulate8080_keeps: "keeps_counters (\<lambda>e. snd (example_emulate8080 n e))"
  by (simp add: keeps_counters_def example_emulate8080_def Let_def)

lemma causeInt_spec_keeps: "keeps_counters (causeInt_spec v)"
  by (simp add: keeps_counters_def causeInt_spec_def Let_def)

text \<open>
  A frame of the example engine from the initialised machine with interrupts enabled:
  each burst takes 4267 instructions, 17068 cycles; the first interrupt is taken and
  clears interrupt-enable, the second is dropped; the call returns 34136.
\<close>

theorem C4_step_frame_witness:
  "map_option fst (si_step_frame example_emulate8080 causeInt_spec example_running) = Some 34136 \<and>
   map_option (frame_count \<circ> si_state \<circ> snd)
     (si_step_frame example_emulate8080 causeInt_spec example_running) = Some 1 \<and>
   map_option (cycle_count \<circ> si_state \<circ> snd)
     (si_step_frame example_emulate8080 causeInt_spec example_running) = Some 34136 \<and>
   map_option (pc \<circ> e8080 \<circ> snd)
     (si_step_frame example_emulate8080 causeInt_spec example_running) = Some 0x10B3 \<and>
   map_option (IE \<circ> e8080 \<circ> snd)
     (si_step_frame example_emulate8080 causeInt_spec example_running) = Some False"
proof -
  define em1 where "em1 = snd (example_emulate8080 17066 example_running)"
  define em3 where "em3 = snd (example_emulate8080 17066 (causeInt_spec 8 em1))"
  have b1: "example_emulate8080 17066 example_running = (17068, em1)"
    by (simp add: em1_def example_emulate8080_def example_running_def example_emulator_def
        reset8080_def)
  have h1: "\<not> halt (e8080 (causeInt_spec 8 em1))"
    by (simp add: em1_def example_emulate8080_def example_running_def example_emulator_def
        reset8080_def causeInt_spec_def Let_def)
  have b2: "example_emulate8080 17066 (causeInt_spec 8 em1) = (17068, em3)"
    using h1 by (simp add: em3_def example_emulate8080_def)
  have rng: "c_int_range (17068 + 17068)"
    by (simp add: c_int_range_def)
  have pc3: "pc (e8080 (causeInt_spec 16 em3)) = 0x10B3" "\<not> IE (e8080 (causeInt_spec 16 em3))"
    by (simp_all add: em3_def em1_def example_emulate8080_def example_running_def
        example_emulator_def reset8080_def causeInt_spec_def Let_def)
  have fc: "frame_count (si_state example_running) = 0"
    "cycle_count (si_state example_running) = 0"
    by (simp_all add: example_running_def example_emulator_def)
  show ?thesis
    using C4_step_frame [of example_emulate8080 causeInt_spec example_running 17068 em1 17068 em3,
        OF _ _ b1 b2 rng] example_emulate8080_keeps causeInt_spec_keeps pc3
    by (simp add: fc)
qed

section \<open>Saving and loading\<close>

lemma save_ram_step:
  "addr < SI_RAM_START + SI_RAM_SIZE \<Longrightarrow>
   save_ram addr m = readByte m addr # save_ram (Suc addr) m"
  by (subst save_ram.simps) simp

lemma load_ram_Cons:
  "addr < SI_RAM_START + SI_RAM_SIZE \<Longrightarrow>
   load_ram addr (byte # fp) m' = load_ram (Suc addr) fp (writeByte byte addr m')"
  by (subst load_ram.simps) simp

lemma load_ram_done:
  "\<not> addr < SI_RAM_START + SI_RAM_SIZE \<Longrightarrow> load_ram addr fp m' = (True, m')"
  by (subst load_ram.simps) simp

lemma load_save_ram_ok: "fst (load_ram addr (save_ram addr m @ rest) m')"
proof (induction addr m arbitrary: m' rule: save_ram.induct)
  case (1 addr m)
  show ?case
  proof (cases "addr < SI_RAM_START + SI_RAM_SIZE")
    case True
    have "load_ram addr (save_ram addr m @ rest) m' =
        load_ram (Suc addr) (save_ram (Suc addr) m @ rest) (writeByte (readByte m addr) addr m')"
      by (simp only: save_ram_step [OF True] append_Cons load_ram_Cons [OF True])
    with "1.IH"[OF True] show ?thesis by simp
  next
    case False
    then show ?thesis by (simp add: load_ram_done)
  qed
qed

lemma load_save_ram_read:
  "readByte (snd (load_ram addr (save_ram addr m @ rest) m')) a =
     (if addr \<le> a \<and> a < SI_RAM_START + SI_RAM_SIZE \<and> writable m' a
      then readByte m a else readByte m' a)"
proof (induction addr m arbitrary: m' rule: save_ram.induct)
  case (1 addr m)
  show ?case
  proof (cases "addr < SI_RAM_START + SI_RAM_SIZE")
    case True
    have l: "load_ram addr (save_ram addr m @ rest) m' =
        load_ram (Suc addr) (save_ram (Suc addr) m @ rest) (writeByte (readByte m addr) addr m')"
      by (simp only: save_ram_step [OF True] append_Cons load_ram_Cons [OF True])
    have "a < addr \<or> a = addr \<or> Suc addr \<le> a" by arith
    with True "1.IH"[OF True, of "writeByte (readByte m addr) addr m'"] show ?thesis
      unfolding l by (auto simp: readByte_writeByte writable_writeByte)
  next
    case False
    then show ?thesis by (auto simp: load_ram_done)
  qed
qed

lemma fread_struct_full:
  "length bs = sz \<Longrightarrow> fread_struct sz to_b of_b obj (bs @ rest) = (True, of_b bs, rest)"
  by (simp add: fread_struct_def)

lemma magic_header: "take 4 (magic @ fp) = magic" "drop 4 (magic @ fp) = fp" "length magic = 4"
  by (simp_all add: magic_def)

lemma version_header:
  "take 4 (u32_bytes 1 @ fp) = u32_bytes 1" "drop 4 (u32_bytes 1 @ fp) = fp"
  "length (u32_bytes 1) = 4" "u32_of_bytes (u32_bytes 1) = 1"
  by (simp_all add: u32_bytes_def u32_of_bytes_def)

text \<open>
  The example representation is one: it reads every CPU state whose pointers fit 64
  bits, and every emulator state whose screen buffer has its declared size and whose
  shift offset is a C \<^verbatim>\<open>int\<close>, back from its own bytes.
\<close>

lemma byte_step:
  "(ucast (ucast (drop_bit k w) :: u8) :: 'a::len word) OR push_bit 8 (drop_bit (8 + k) w)
     = drop_bit k w"
proof (rule bit_word_eqI)
  fix n assume "n < LENGTH('a)"
  have "n < 8 \<or> 8 \<le> n" by arith
  then show "bit ((ucast (ucast (drop_bit k w) :: u8) :: 'a word)
      OR push_bit 8 (drop_bit (8 + k) w)) n = bit (drop_bit k w) n"
  proof
    assume "n < 8"
    then show ?thesis
      by (auto simp: bit_ucast_iff bit_or_iff bit_push_bit_iff bit_drop_bit_eq
          dest: bit_imp_le_length)
  next
    assume n: "8 \<le> n"
    then have "8 + k + (n - 8) = n + k" by arith
    with n \<open>n < LENGTH('a)\<close> show ?thesis
      by (auto simp: bit_ucast_iff bit_or_iff bit_push_bit_iff bit_drop_bit_eq)
  qed
qed

lemma byte_step0:
  "(ucast (ucast w :: u8) :: 'a::len word) OR push_bit 8 (drop_bit 8 w) = w"
  using byte_step [of 0 w] by simp

lemma le_word_u16: "le_word (u16_bytes w) = w"
proof -
  have "drop_bit 16 w = 0" by (simp add: drop_bit_word_beyond)
  then show ?thesis
    using byte_step [of 8 w] byte_step0 [of w] by (simp add: u16_bytes_def)
qed

lemma le_word_u32: "le_word (u32_bytes w) = w"
proof -
  have "drop_bit 32 w = 0" by (simp add: drop_bit_word_beyond)
  then show ?thesis
    using byte_step [of 24 w] byte_step [of 16 w] byte_step [of 8 w] byte_step0 [of w]
    by (simp add: u32_bytes_def)
qed

lemma le_word_u64: "le_word (u64_bytes w) = w"
proof -
  have "drop_bit 64 w = 0" by (simp add: drop_bit_word_beyond)
  then show ?thesis
    using byte_step [of 56 w] byte_step [of 48 w] byte_step [of 40 w] byte_step [of 32 w]
      byte_step [of 24 w] byte_step [of 16 w] byte_step [of 8 w] byte_step0 [of w]
    by (simp add: u64_bytes_def)
qed

lemma byte_of_bool_iff: "(byte_of_bool b \<noteq> 0) = b"
  by (simp add: byte_of_bool_def)

lemma unat_pointer: "p < 2 ^ 64 \<Longrightarrow> unat (word_of_nat p :: u64) = p"
  by (rule of_nat_inverse) simp_all

lemma sint_offset: "c_int_range i \<Longrightarrow> sint (word_of_int i :: u32) = i"
  by (simp add: c_int_range_def signed_of_int signed_take_bit_int_eq_self)

lemma bytes_length:
  "length (u16_bytes w16) = 2" "length (u32_bytes w32) = 4" "length (u64_bytes w64) = 8"
  by (simp_all add: u16_bytes_def u32_bytes_def u64_bytes_def)

lemma example_e8080_reads_back:
  assumes "ram c < 2 ^ 64" and "portIn c < 2 ^ 64" and "portOut c < 2 ^ 64"
  shows "length (example_e8080_bytes c) = 42 \<and> example_e8080_of_bytes (example_e8080_bytes c) = c"
proof -
  have len: "length (example_e8080_bytes c) = 42"
    by (simp add: example_e8080_bytes_def bytes_length)
  have "example_e8080_of_bytes (example_e8080_bytes c) = c"
    using assms
    by (simp add: example_e8080_bytes_def example_e8080_of_bytes_def byte_of_bool_iff
        bytes_length nth_append le_word_u16 le_word_u64 unat_pointer)
  with len show ?thesis by simp
qed

lemma example_si_state_reads_back:
  assumes "length (screen_buf s) = SCREEN_BYTES" and "c_int_range (shift_offset s)"
  shows "length (example_si_state_bytes s) = SCREEN_BYTES + 29 \<and>
         example_si_state_of_bytes (example_si_state_bytes s) = s"
proof -
  have len: "length (example_si_state_bytes s) = SCREEN_BYTES + 29"
    using assms by (simp add: example_si_state_bytes_def bytes_length)
  have "example_si_state_of_bytes (example_si_state_bytes s) = s"
    using assms
    by (cases s, cases "config s")
      (simp add: example_si_state_bytes_def example_si_state_of_bytes_def byte_of_bool_iff
        bytes_length nth_append le_word_u16 le_word_u32 le_word_u64 sint_offset)
  with len show ?thesis by simp
qed

text \<open>
  Claim C2, as stated, on the truncated file: the header validates, the CPU section is
  read whole into the live CPU state, the read of the emulator state finds the end of
  the file, the call fails, and the program counter of the live CPU is now the file's.
\<close>

theorem C2_load_failure_counterexample:
  "fst (si_load_state example_abi (Some truncated_save_file) example_emulator) = Some ShortEmuState \<and>
   status_code (fst (si_load_state example_abi (Some truncated_save_file) example_emulator)) = - 1 \<and>
   pc (e8080 example_emulator) = 0x0001 \<and>
   pc (e8080 (snd (si_load_state example_abi (Some truncated_save_file) example_emulator))) = 0x1234"
  by (simp add: si_load_state_def truncated_save_file_def magic_def u32_of_bytes_def
      example_abi_def fread_struct_def example_e8080_of_bytes_def status_code_def
      example_emulator_def reset8080_def SCREEN_BYTES_def)

text \<open>
  Claim C2, amended: if \<^verbatim>\<open>si_load_state\<close> fails because the file cannot be opened or
  because its magic tag or its version does not validate (a file too short to hold them
  included), no live state is mutated: the CPU state, the emulator state and the memory
  after the call are those before it. Such a file does fail in that way.
\<close>

theorem C2_load_header_failure:
  "(fst (si_load_state abi file em) \<in> {Some OpenFailed, Some BadMagic, Some BadVersion}
      \<longrightarrow> snd (si_load_state abi file em) = em) \<and>
   (file = None \<or>
    (\<exists>fp. file = Some fp \<and>
       (length fp < 4 \<or> take 4 fp \<noteq> magic \<or> length fp < 8 \<or>
        u32_of_bytes (take 4 (drop 4 fp)) \<noteq> 1))
      \<longrightarrow> fst (si_load_state abi file em) \<in> {Some OpenFailed, Some BadMagic, Some BadVersion})"
proof -
  have 1: "fst (si_load_state abi file em) \<in> {Some OpenFailed, Some BadMagic, Some BadVersion}
      \<longrightarrow> snd (si_load_state abi file em) = em"
    by (auto simp: si_load_state_def Let_def split: option.splits prod.splits if_splits)
  have 2: "fst (si_load_state abi file em) \<in> {Some OpenFailed, Some BadMagic, Some BadVersion}"
    if "file = None \<or>
      (\<exists>fp. file = Some fp \<and>
         (length fp < 4 \<or> take 4 fp \<noteq> magic \<or> length fp < 8 \<or>
          u32_of_bytes (take 4 (drop 4 fp)) \<noteq> 1))"
    using that by (auto simp: si_load_state_def Let_def)
  from 1 2 show ?thesis by blast
qed

text \<open>No file, a wrong last letter of the tag, and version 2.\<close>

theorem C2_load_header_failure_witness:
  "si_load_state example_abi None example_later = (Some OpenFailed, example_later) \<and>
   si_load_state example_abi (Some [0x53, 0x49, 0x38, 0x31, 0x01, 0x00, 0x00, 0x00, 0x55])
     example_later = (Some BadMagic, example_later) \<and>
   si_load_state example_abi (Some [0x53, 0x49, 0x38, 0x30, 0x02, 0x00, 0x00, 0x00, 0x55])
     example_later = (Some BadVersion, example_later)"
proof -
  have 1: "fst (si_load_state example_abi None example_later) = Some OpenFailed"
    by (simp add: si_load_state_def)
  have 2: "fst (si_load_state example_abi
      (Some [0x53, 0x49, 0x38, 0x31, 0x01, 0x00, 0x00, 0x00, 0x55]) example_later) = Some BadMagic"
    by (simp add: si_load_state_def magic_def)
  have 3: "fst (si_load_state example_abi
      (Some [0x53, 0x49, 0x38, 0x30, 0x02, 0x00, 0x00, 0x00, 0x55]) example_later) = Some BadVersion"
    by (simp add: si_load_state_def magic_def u32_of_bytes_def)
  show ?thesis
    using C2_load_header_failure [of example_abi None example_later]
      C2_load_header_failure [of example_abi
        "Some [0x53, 0x49, 0x38, 0x31, 0x01, 0x00, 0x00, 0x00, 0x55]" example_later]
      C2_load_header_failure [of example_abi
        "Some [0x53, 0x49, 0x38, 0x30, 0x02, 0x00, 0x00, 0x00, 0x55]" example_later]
      1 2 3
    by (simp add: prod_eq_iff)
qed

text \<open>
  Claim C3: for every machine state, with an object representation that reads the two
  saved structures back from their own bytes, \<^verbatim>\<open>si_save_state\<close> returns 0 and
  \<^verbatim>\<open>si_load_state\<close> on the file it wrote succeeds and reproduces the saved CPU state, the
  saved emulator state (configuration, frame counter and cycle counter included) and
  the saved byte at every address of the RAM range; addresses outside that range keep
  what the machine loaded into holds. The machine loaded into is any that still has the
  address space of the save (the pointer \<^verbatim>\<open>e8080.ram\<close> is the saved one) and whose RAM
  range is writable, or left as it was saved where it is not.
\<close>

theorem C3_save_load_roundtrip:
  assumes cpu_len: "length (e8080_bytes abi (e8080 em)) = sizeof_e8080 abi"
    and cpu_rt: "e8080_of_bytes abi (e8080_bytes abi (e8080 em)) = e8080 em"
    and si_len: "length (si_state_bytes abi (si_state em)) = sizeof_si_state abi"
    and si_rt: "si_state_of_bytes abi (si_state_bytes abi (si_state em)) = si_state em"
    and saved: "si_save_state abi True em = (r, Some blob)"
    and same_ram: "ram (e8080 em') = ram (e8080 em)"
    and shape: "\<forall>a. SI_RAM_START \<le> a \<and> a < SI_RAM_START + SI_RAM_SIZE \<longrightarrow>
                  writable (memory em') a \<or> readByte (memory em') a = readByte (memory em) a"
  shows "r = 0 \<and>
         fst (si_load_state abi (Some blob) em') = None \<and>
         e8080 (snd (si_load_state abi (Some blob) em')) = e8080 em \<and>
         si_state (snd (si_load_state abi (Some blob) em')) = si_state em \<and>
         config (si_state (snd (si_load_state abi (Some blob) em'))) = config (si_state em) \<and>
         frame_count (si_state (snd (si_load_state abi (Some blob) em'))) =
           frame_count (si_state em) \<and>
         cycle_count (si_state (snd (si_load_state abi (Some blob) em'))) =
           cycle_count (si_state em) \<and>
         (\<forall>a. readByte (memory (snd (si_load_state abi (Some blob) em'))) a =
           (if SI_RAM_START \<le> a \<and> a < SI_RAM_START + SI_RAM_SIZE
            then readByte (memory em) a else readByte (memory em') a))"
proof -
  let ?ram = "save_ram SI_RAM_START (memory em)"
  from saved have r: "r = 0"
    and blob: "blob = magic @ u32_bytes 1 @ e8080_bytes abi (e8080 em)
                  @ si_state_bytes abi (si_state em) @ ?ram"
    by (simp_all add: si_save_state_def)
  obtain ok m1 where lr: "load_ram SI_RAM_START (?ram @ []) (memory em') = (ok, m1)"
    by (cases "load_ram SI_RAM_START (?ram @ []) (memory em')")
  from load_save_ram_ok [of SI_RAM_START "memory em" "[]" "memory em'"] lr
  have ok: "ok" by simp
  have m1: "readByte m1 a =
      (if SI_RAM_START \<le> a \<and> a < SI_RAM_START + SI_RAM_SIZE \<and> writable (memory em') a
       then readByte (memory em) a else readByte (memory em') a)" for a
    using load_save_ram_read [of SI_RAM_START "memory em" "[]" "memory em'" a] lr by simp
  have res: "si_load_state abi (Some blob) em' =
      (None, \<lparr>e8080 = e8080 em, si_state = si_state em, memory = m1\<rparr>)"
    using lr ok
    by (simp add: si_load_state_def blob magic_header version_header
        fread_struct_full [OF cpu_len] fread_struct_full [OF si_len] cpu_rt si_rt)
  show ?thesis
    using shape by (auto simp: r res m1)
qed

text \<open>
  The later machine is saved; the file is loaded into the machine as initialisation
  left it, which then holds the later machine's registers, counters and RAM.
\<close>

theorem C3_save_load_roundtrip_witness:
  "fst (si_save_state example_abi True example_later) = 0 \<and>
   fst (si_load_state example_abi (snd (si_save_state example_abi True example_later))
          example_emulator) = None \<and>
   e8080 (snd (si_load_state example_abi (snd (si_save_state example_abi True example_later))
          example_emulator)) = e8080 example_later \<and>
   si_state (snd (si_load_state example_abi (snd (si_save_state example_abi True example_later))
          example_emulator)) = si_state example_later \<and>
   readByte (memory (snd (si_load_state example_abi
          (snd (si_save_state example_abi True example_later)) example_emulator))) 0x20F8 = 0x23 \<and>
   readByte (memory example_emulator) 0x20F8 = 0x00"
proof -
  let ?blob = "magic @ u32_bytes 1 @ e8080_bytes example_abi (e8080 example_later)
      @ si_state_bytes example_abi (si_state example_later)
      @ save_ram SI_RAM_START (memory example_later)"
  have "ram (e8080 example_later) < 2 ^ 64" "portIn (e8080 example_later) < 2 ^ 64"
    "portOut (e8080 example_later) < 2 ^ 64"
    by (simp_all add: example_later_def example_emulator_def reset8080_def)
  from example_e8080_reads_back [OF this]
  have cpu_len: "length (e8080_bytes example_abi (e8080 example_later)) = sizeof_e8080 example_abi"
    and cpu_rt: "e8080_of_bytes example_abi (e8080_bytes example_abi (e8080 example_later)) =
      e8080 example_later"
    by (simp_all add: example_abi_def)
  have "length (screen_buf (si_state example_later)) = SCREEN_BYTES"
    "c_int_range (shift_offset (si_state example_later))"
    by (simp_all add: example_later_def example_emulator_def c_int_range_def)
  from example_si_state_reads_back [OF this]
  have si_len: "length (si_state_bytes example_abi (si_state example_later)) =
      sizeof_si_state example_abi"
    and si_rt: "si_state_of_bytes example_abi (si_state_bytes example_abi (si_state example_later)) =
      si_state example_later"
    by (simp_all add: example_abi_def)
  have saved: "si_save_state example_abi True example_later = (0, Some ?blob)"
    by (simp add: si_save_state_def)
  have shape: "\<forall>a. SI_RAM_START \<le> a \<and> a < SI_RAM_START + SI_RAM_SIZE \<longrightarrow>
      writable (memory example_emulator) a \<or>
      readByte (memory example_emulator) a = readByte (memory example_later) a"
    by (simp add: example_emulator_def si_banks_def covers_def SI_RAM_START_def SI_RAM_SIZE_def)
  have same_ram: "ram (e8080 example_emulator) = ram (e8080 example_later)"
    by (simp add: example_later_def example_emulator_def)
  have rb: "readByte (memory example_later) 0x20F8 = 0x23"
    "readByte (memory example_emulator) 0x20F8 = 0x00"
    by (simp_all add: example_memory_defs)
  show ?thesis
    using C3_save_load_roundtrip [OF cpu_len cpu_rt si_len si_rt saved same_ram shape] rb
    by (simp add: saved SI_RAM_START_def SI_RAM_SIZE_def)
qed

end
